theory Spec2Isabelle
  imports Main "HOL-Library.Word"
begin

unbundle bit_operations_syntax

section \<open>Machine types and status codes\<close>

text \<open>
  The program is built for a 64-bit target: \<^verbatim>\<open>size_t\<close>, \<^verbatim>\<open>SIZE_T\<close>, \<^verbatim>\<open>TADDR\<close> and
  \<^verbatim>\<open>CORDB_ADDRESS\<close> are 64-bit unsigned integers; \<^verbatim>\<open>ULONG\<close>, \<^verbatim>\<open>ULONG32\<close> and
  \<^verbatim>\<open>DWORD\<close> are 32-bit unsigned integers and \<^verbatim>\<open>HRESULT\<close> is a 32-bit signed one.
  \<^verbatim>\<open>SUCCEEDED(hr)\<close> is \<open>hr >= 0\<close> and \<^verbatim>\<open>FAILED(hr)\<close> is \<open>hr < 0\<close>.
\<close>

type_synonym HRESULT = "32 word"
type_synonym DWORD = "32 word"
type_synonym ULONG = "32 word"
type_synonym ULONG32 = "32 word"
type_synonym SIZE_T = "64 word"
type_synonym TADDR = "64 word"
type_synonym CORDB_ADDRESS = "64 word"

definition S_OK :: HRESULT where
  "S_OK = 0"

definition E_FAIL :: HRESULT where
  "E_FAIL = 0x80004005"

definition E_INVALIDARG :: HRESULT where
  "E_INVALIDARG = 0x80070057"

definition SUCCEEDED :: "HRESULT \<Rightarrow> bool" where
  "SUCCEEDED hr = (0 \<le> sint hr)"

definition FAILED :: "HRESULT \<Rightarrow> bool" where
  "FAILED hr = (sint hr < 0)"

section \<open>The native debugging interface, as the program sees it\<close>

text \<open>
  The objects of the runtime's debugging interface and the collaborators declared at the
  top of main.cpp (breakpoints, modules, frames, value walk) are not part of the program.
  Each object is a record of the answers it gives to the calls the program makes on it.
  A call that hands back an object or a value through an out-parameter is an \<open>option\<close>:
  \<open>None\<close> when the call fails (and leaves the out-parameter as it was).
\<close>

record ICorDebugFrame =
  PrintFrameLocation :: string
    \<comment> \<open>the text the collaborator \<^verbatim>\<open>PrintFrameLocation(pFrame, output)\<close> leaves in \<open>output\<close>\<close>
  GetScopeName :: "string option"
    \<comment> \<open>\<^verbatim>\<open>GetFunction\<close>, \<^verbatim>\<open>GetModule\<close>, \<^verbatim>\<open>GetMetaDataInterface\<close>, \<^verbatim>\<open>QueryInterface\<close> and
        \<^verbatim>\<open>GetScopeProps\<close> in a row: the scope name as \<^verbatim>\<open>to_utf8\<close> gives it, \<open>None\<close> when
        one of the five calls fails\<close>

record ICorDebugThread =
  GetID :: "DWORD option"
  GetActiveFrame :: "ICorDebugFrame option"
  GetCurrentException :: "string option"
    \<comment> \<open>the type name \<^verbatim>\<open>TypePrinter::GetTypeOfValue\<close> renders for the current exception\<close>
  FindCurrentBreakpointId :: "ULONG32 option"
    \<comment> \<open>the id the collaborator \<^verbatim>\<open>FindCurrentBreakpointId(pThread, id)\<close> stores in \<open>id\<close>\<close>

record ICorDebugAppDomain =
  domain_id :: nat
  EnumerateBreakpoints :: "nat list option"
    \<comment> \<open>the breakpoints that \<^verbatim>\<open>Next(1, ...)\<close> fetches until it fails or fetches none\<close>
  EnumerateSteppers :: "nat list option"

record ICorDebugModule =
  module_key :: nat
  loaded_id :: string
  loaded_name :: string
  symbolsLoaded :: bool
  baseAddress :: CORDB_ADDRESS
  loaded_size :: ULONG32
    \<comment> \<open>what the collaborator \<^verbatim>\<open>TryLoadModuleSymbols\<close> stores in \<open>id\<close>, \<open>name\<close>,
        \<open>symbolsLoaded\<close>, \<open>baseAddress\<close> and \<open>size\<close>\<close>

record ICorDebugProcess =
  process_id :: nat
  Stop :: HRESULT
  EnumerateAppDomains :: "HRESULT \<times> ICorDebugAppDomain list"
  ReadMemory :: "nat \<Rightarrow> CORDB_ADDRESS \<Rightarrow> ULONG \<Rightarrow> HRESULT \<times> SIZE_T option"
    \<comment> \<open>the debuggee's memory changes while it runs: the first argument is the number of
        reads made before this one. The result is the status and what the call stores in
        \<open>bytesRead\<close> (\<open>None\<close>: it leaves the variable alone). The bytes copied to the
        buffer are not modelled.\<close>

record ICorDebug =
  debug_id :: nat
  Initialize :: HRESULT
  SetManagedHandler :: HRESULT
  DebugActiveProcess :: "int \<Rightarrow> HRESULT \<times> ICorDebugProcess"

record IUnknown =
  QueryInterface_ICorDebug :: "HRESULT \<times> ICorDebug"

text \<open>The functions the attach path calls outside the program.\<close>

record platform =
  GetCoreCLRPath :: "int \<Rightarrow> string"
  CreateVersionStringFromModule :: "int \<Rightarrow> string \<Rightarrow> HRESULT \<times> string"
  CreateDebuggingInterfaceFromVersionEx :: "string \<Rightarrow> HRESULT \<times> IUnknown"

text \<open>An \<^verbatim>\<open>ICorDebugController\<close> is an application domain or the process.\<close>

datatype ICorDebugController = AppDomainController nat | ProcessController nat

text \<open>
  The calls by which the program acts on the debuggee, on the native interface or on a
  collaborator (as opposed to the queries above) are appended to a log, in the order of the
  statements. Reference counting by the \<^verbatim>\<open>ToRelease\<close> holders is not recorded.
\<close>

datatype native_call =
    Call_Continue ICorDebugController
  | Call_AddRef nat
  | Call_Release nat
  | Call_Stop nat
  | Call_Detach nat
  | Call_Terminate nat
  | Call_ReadMemory nat CORDB_ADDRESS ULONG
  | Call_DebugTerminate nat
  | Call_Initialize nat
  | Call_SetManagedHandler nat
  | Call_DebugActiveProcess nat int
  | Call_Activate nat bool
  | Call_Deactivate nat
  | Call_DeleteAllBreakpoints
  | Call_CleanupAllModules
  | Call_NotifyEvalComplete
  | Call_TryLoadModuleSymbols nat
  | Call_TryResolveBreakpointsForModule nat
  | Call_SetCoreCLRPath string

fun is_Continue :: "native_call \<Rightarrow> bool" where
  "is_Continue (Call_Continue c) = True"
| "is_Continue other = False"

fun is_ReadMemory :: "native_call \<Rightarrow> bool" where
  "is_ReadMemory (Call_ReadMemory p a n) = True"
| "is_ReadMemory other = False"

section \<open>The state of the debugger\<close>

text \<open>
  The globals \<open>g_process\<close> (the Process Lifecycle Registry) and \<open>g_lastStoppedThreadId\<close>,
  the members \<open>m_pProcess\<close> and \<open>m_pDebug\<close> of the one \<^verbatim>\<open>Debugger\<close> object, the texts
  written to standard output (one entry for each \<^verbatim>\<open>out_printf\<close>, which writes and flushes
  under \<open>g_outMutex\<close>) and the log of calls.
\<close>

record debugger =
  g_process :: "ICorDebugProcess option"
  g_lastStoppedThreadId :: int
  m_pProcess :: "ICorDebugProcess option"
  m_pDebug :: "ICorDebug option"
  stdout :: "string list"
  calls :: "native_call list"

definition call :: "native_call \<Rightarrow> debugger \<Rightarrow> debugger" where
  "call c st = st\<lparr>calls := calls st @ [c]\<rparr>"

definition continue_count :: "debugger \<Rightarrow> nat" where
  "continue_count st = length (filter is_Continue (calls st))"

definition Continue :: "ICorDebugController \<Rightarrow> debugger \<Rightarrow> debugger" where
  "Continue controller st = call (Call_Continue controller) st"

definition out_printf :: "string \<Rightarrow> debugger \<Rightarrow> debugger" where
  "out_printf text st = st\<lparr>stdout := stdout st @ [text]\<rparr>"

section \<open>Formatting\<close>

text \<open>\<^verbatim>\<open>%s\<close> prints a C string: the bytes of \<open>c_str()\<close> up to the first NUL.\<close>

definition c_str :: "string \<Rightarrow> string" where
  "c_str s = takeWhile (\<lambda>c. c \<noteq> CHR 0x00) s"

text \<open>\<^verbatim>\<open>\"...\"\<close> in a format string: the value between two double quotes.\<close>

definition quoted :: "string \<Rightarrow> string" where
  "quoted s = CHR 0x22 # s @ [CHR 0x22]"

definition digit :: "nat \<Rightarrow> char" where
  "digit d = ''0123456789abcdef'' ! d"

text \<open>\<^verbatim>\<open>%u\<close> and \<^verbatim>\<open>std::dec\<close>: decimal digits, most significant first.\<close>

function show_nat :: "nat \<Rightarrow> string" where
  "show_nat n = (if n < 10 then [digit n] else show_nat (n div 10) @ [digit (n mod 10)])"
  by pat_completeness auto
termination
  by (relation "measure (\<lambda>n. n)") auto

declare show_nat.simps [simp del]

text \<open>\<^verbatim>\<open>%i\<close>: a signed decimal number.\<close>

definition show_int :: "int \<Rightarrow> string" where
  "show_int i = (if i < 0 then CHR ''-'' # show_nat (nat (- i)) else show_nat (nat i))"

text \<open>\<^verbatim>\<open>std::hex\<close>: lower-case hexadecimal digits.\<close>

function show_hex :: "nat \<Rightarrow> string" where
  "show_hex n = (if n < 16 then [digit n] else show_hex (n div 16) @ [digit (n mod 16)])"
  by pat_completeness auto
termination
  by (relation "measure (\<lambda>n. n)") auto

declare show_hex.simps [simp del]

section \<open>Output Serializer: escaping of protocol values\<close>

text \<open>
  \<^verbatim>\<open>std::string EscapeMIValue(const std::string &str)\<close> (main.cpp, lines 140--165) copies
  its argument into \<open>s\<close> and walks over \<open>s\<close> by index. At an escape-set character it
  inserts one backslash in front (\<^verbatim>\<open>s.insert(i, count, '\\')\<close>), overwrites the character
  itself by its mnemonic letter (\<^verbatim>\<open>s[i + count] = ...\<close>) and skips both.

  A \<^verbatim>\<open>std::string\<close> is a sequence of bytes that may contain NUL, which is what a HOL
  \<open>string\<close> (a list of 8-bit characters) is.
\<close>

text \<open>The \<^verbatim>\<open>switch (c)\<close>: the letter stored at \<open>s[i + count]\<close>, in the order of the cases;
  \<open>None\<close> when no case matches (\<open>count\<close> stays 0).\<close>

definition escape_letter :: "char \<Rightarrow> char option" where
  "escape_letter c =
     (if c = CHR 0x22 then Some (CHR 0x22)
      else if c = CHR 0x5C then Some (CHR 0x5C)
      else if c = CHR 0x00 then Some (CHR ''0'')
      else if c = CHR 0x07 then Some (CHR ''a'')
      else if c = CHR 0x08 then Some (CHR ''b'')
      else if c = CHR 0x0C then Some (CHR ''f'')
      else if c = CHR 0x0A then Some (CHR ''n'')
      else if c = CHR 0x0D then Some (CHR ''r'')
      else if c = CHR 0x09 then Some (CHR ''t'')
      else if c = CHR 0x0B then Some (CHR ''v'')
      else None)"

text \<open>\<^verbatim>\<open>s.insert(pos, count, ch)\<close>: \<open>count\<close> copies of \<open>ch\<close> in front of position \<open>pos\<close>.
  The loop only calls it with \<open>pos < s.size()\<close>, where it does not throw.\<close>

definition string_insert :: "string \<Rightarrow> nat \<Rightarrow> nat \<Rightarrow> char \<Rightarrow> string" where
  "string_insert s pos count ch = take pos s @ replicate count ch @ drop pos s"

text \<open>The \<^verbatim>\<open>for\<close> loop, with the string and the index as its state. \<open>s.at(i)\<close> is
  only reached with \<open>i < s.size()\<close>.\<close>

function EscapeMIValue_loop :: "string \<Rightarrow> nat \<Rightarrow> string" where
  "EscapeMIValue_loop s i =
     (if i < length s then
        (case escape_letter (s ! i) of
           Some l \<Rightarrow> EscapeMIValue_loop ((string_insert s i 1 (CHR 0x5C))[i + 1 := l]) (i + 1 + 1)
         | None \<Rightarrow> EscapeMIValue_loop s (i + 0 + 1))
      else s)"
  by pat_completeness auto
termination
  by (relation "measure (\<lambda>(s, i). length s - i)") (auto simp: string_insert_def)

declare EscapeMIValue_loop.simps [simp del]

definition EscapeMIValue :: "string \<Rightarrow> string" where
  "EscapeMIValue str = EscapeMIValue_loop str 0"

text \<open>The set of characters the \<^verbatim>\<open>switch\<close> has a case for.\<close>

definition escape_set :: "char set" where
  "escape_set = {CHR 0x22, CHR 0x5C, CHR 0x00, CHR 0x07, CHR 0x08, CHR 0x0C, CHR 0x0A,
                 CHR 0x0D, CHR 0x09, CHR 0x0B}"

text \<open>What one character of the input becomes.\<close>

definition escape_char :: "char \<Rightarrow> string" where
  "escape_char c = (case escape_letter c of Some l \<Rightarrow> [CHR 0x5C, l] | None \<Rightarrow> [c])"

text \<open>
  Modelled from the spec: the ``matching unescape'' of the round-trip property. The
  repository has no decoder; this one reads a backslash followed by one of the ten
  mnemonic letters as the character that letter stands for, and copies everything else.
\<close>

definition unescape_letter :: "char \<Rightarrow> char option" where
  "unescape_letter l =
     (if l = CHR 0x22 then Some (CHR 0x22)
      else if l = CHR 0x5C then Some (CHR 0x5C)
      else if l = CHR ''0'' then Some (CHR 0x00)
      else if l = CHR ''a'' then Some (CHR 0x07)
      else if l = CHR ''b'' then Some (CHR 0x08)
      else if l = CHR ''f'' then Some (CHR 0x0C)
      else if l = CHR ''n'' then Some (CHR 0x0A)
      else if l = CHR ''r'' then Some (CHR 0x0D)
      else if l = CHR ''t'' then Some (CHR 0x09)
      else if l = CHR ''v'' then Some (CHR 0x0B)
      else None)"

fun UnescapeMIValue :: "string \<Rightarrow> string" where
  "UnescapeMIValue (c # l # cs) =
     (if c = CHR 0x5C then
        (case unescape_letter l of
           Some x \<Rightarrow> x # UnescapeMIValue cs
         | None \<Rightarrow> c # UnescapeMIValue (l # cs))
      else c # UnescapeMIValue (l # cs))"
| "UnescapeMIValue cs = cs"

section \<open>Process Lifecycle Registry\<close>

text \<open>
  The three functions of the registry and \<^verbatim>\<open>SafeReadMemory\<close> run under \<open>g_processMutex\<close>:
  each is one step on the state, and the locking itself is not modelled (nor is the second
  unlock of the mutex that \<^verbatim>\<open>NotifyProcessExited\<close> and \<^verbatim>\<open>AttachToProcess\<close> cause by
  unlocking by hand inside the scope of a \<^verbatim>\<open>lock_guard\<close>).
\<close>

text \<open>\<^verbatim>\<open>ProcessCreated\<close> (lines 33--38): take a reference and store the handle.\<close>

definition ProcessCreated :: "ICorDebugProcess \<Rightarrow> debugger \<Rightarrow> debugger" where
  "ProcessCreated pProcess st = (call (Call_AddRef (process_id pProcess)) st)\<lparr>g_process := Some pProcess\<rparr>"

text \<open>
  \<^verbatim>\<open>NotifyProcessExited\<close> (lines 40--47) calls \<^verbatim>\<open>g_process->Release()\<close> without a test:
  with an empty registry it dereferences a null pointer. A run of a handler is either
  \<open>Done\<close> or stops at that dereference, with the state it had reached.
\<close>

datatype run = Done debugger | NullDereference debugger

fun final :: "run \<Rightarrow> debugger" where
  "final (Done st) = st"
| "final (NullDereference st) = st"

definition NotifyProcessExited :: "debugger \<Rightarrow> run" where
  "NotifyProcessExited st =
     (case g_process st of
        None \<Rightarrow> NullDereference st
      | Some p \<Rightarrow> Done ((call (Call_Release (process_id p)) st)\<lparr>g_process := None\<rparr>))"

section \<open>Safe Memory Reader\<close>

text \<open>\<^verbatim>\<open>NextOSPageAddress\<close> (lines 56--60). \<^verbatim>\<open>OSPageSize()\<close> is declared in platform.h,
  which is not among the sources: the page size is a parameter.\<close>

definition NextOSPageAddress :: "SIZE_T \<Rightarrow> SIZE_T \<Rightarrow> SIZE_T" where
  "NextOSPageAddress pageSize addr = (addr + pageSize) AND NOT (pageSize - 1)"

definition reads_so_far :: "debugger \<Rightarrow> nat" where
  "reads_so_far st = length (filter is_ReadMemory (calls st))"

text \<open>One \<^verbatim>\<open>g_process->ReadMemory(TO_CDADDR(offset), cb, (BYTE*)lpBuffer, &bytesRead)\<close>:
  the status, the new value of \<open>bytesRead\<close> and the state with the call logged.\<close>

definition ReadMemory_call ::
  "ICorDebugProcess \<Rightarrow> TADDR \<Rightarrow> ULONG \<Rightarrow> SIZE_T \<Rightarrow> debugger \<Rightarrow> HRESULT \<times> SIZE_T \<times> debugger" where
  "ReadMemory_call p offset cb bytesRead st =
     (case ReadMemory p (reads_so_far st) offset cb of
        (hr, stored) \<Rightarrow>
          (hr, (case stored of None \<Rightarrow> bytesRead | Some n \<Rightarrow> n),
           call (Call_ReadMemory (process_id p) offset cb) st))"

text \<open>
  \<^verbatim>\<open>SafeReadMemory\<close> (lines 70--94). The argument \<open>lpcbBytesRead\<close> is the value the caller's
  variable holds before the call; the result is the returned \<^verbatim>\<open>BOOL\<close>, the value the
  variable holds afterwards and the new state. \<^verbatim>\<open>*lpcbBytesRead = bytesRead\<close> converts a
  64-bit count to 32 bits, and so does the cast \<^verbatim>\<open>(ULONG)(NextOSPageAddress(offset) - offset)\<close>.
\<close>

definition SafeReadMemory ::
  "SIZE_T \<Rightarrow> TADDR \<Rightarrow> ULONG \<Rightarrow> ULONG \<Rightarrow> debugger \<Rightarrow> bool \<times> ULONG \<times> debugger" where
  "SafeReadMemory pageSize offset cb lpcbBytesRead st =
     (case g_process st of
        None \<Rightarrow> (False, lpcbBytesRead, st)
      | Some p \<Rightarrow>
          (case ReadMemory_call p offset cb 0 st of
             (hr1, bytesRead1, st1) \<Rightarrow>
               if SUCCEEDED hr1 then (True, ucast bytesRead1, st1)
               else
                 (case ReadMemory_call p offset
                         (ucast (NextOSPageAddress pageSize offset - offset)) bytesRead1 st1 of
                    (hr2, bytesRead2, st2) \<Rightarrow> (SUCCEEDED hr2, ucast bytesRead2, st2))))"

text \<open>The lengths of the reads a state's log holds, oldest first.\<close>

fun read_lengths :: "native_call list \<Rightarrow> ULONG list" where
  "read_lengths [] = []"
| "read_lengths (Call_ReadMemory p a n # cs) = n # read_lengths cs"
| "read_lengths (c # cs) = read_lengths cs"

section \<open>Disabling breakpoints and steppers\<close>

text \<open>\<^verbatim>\<open>DisableAllBreakpointsAndSteppersInAppDomain\<close> (lines 167--199). The results of
  \<^verbatim>\<open>Activate(FALSE)\<close> and \<^verbatim>\<open>Deactivate()\<close> are not looked at.\<close>

definition DisableAllBreakpointsAndSteppersInAppDomain ::
  "ICorDebugAppDomain \<Rightarrow> debugger \<Rightarrow> debugger" where
  "DisableAllBreakpointsAndSteppersInAppDomain pAppDomain st =
     (let st1 = (case EnumerateBreakpoints pAppDomain of
                   Some breakpoints \<Rightarrow> fold (\<lambda>b. call (Call_Activate b False)) breakpoints st
                 | None \<Rightarrow> st);
          st2 = call Call_DeleteAllBreakpoints st1
      in (case EnumerateSteppers pAppDomain of
            Some steppers \<Rightarrow> fold (\<lambda>s. call (Call_Deactivate s)) steppers st2
          | None \<Rightarrow> st2))"

text \<open>\<^verbatim>\<open>DisableAllBreakpointsAndSteppers\<close> (lines 201--216).\<close>

definition DisableAllBreakpointsAndSteppers ::
  "ICorDebugProcess \<Rightarrow> debugger \<Rightarrow> HRESULT \<times> debugger" where
  "DisableAllBreakpointsAndSteppers pProcess st =
     (case EnumerateAppDomains pProcess of
        (Status, domains) \<Rightarrow>
          if FAILED Status then (Status, st)
          else (S_OK, fold DisableAllBreakpointsAndSteppersInAppDomain domains st))"

section \<open>Last stopped thread\<close>

text \<open>\<^verbatim>\<open>DWORD threadId = 0; pThread->GetID(&threadId);\<close>\<close>

definition thread_id :: "ICorDebugThread \<Rightarrow> DWORD" where
  "thread_id pThread = (case GetID pThread of Some i \<Rightarrow> i | None \<Rightarrow> 0)"

text \<open>\<^verbatim>\<open>SetLastStoppedThread\<close> (lines 221--228): the \<^verbatim>\<open>DWORD\<close> is converted to \<^verbatim>\<open>int\<close>.\<close>

definition SetLastStoppedThread :: "ICorDebugThread \<Rightarrow> debugger \<Rightarrow> debugger" where
  "SetLastStoppedThread pThread st = st\<lparr>g_lastStoppedThreadId := sint (thread_id pThread)\<rparr>"

definition GetLastStoppedThreadId :: "debugger \<Rightarrow> int" where
  "GetLastStoppedThreadId st = g_lastStoppedThreadId st"

section \<open>Event Dispatcher: the handlers of \<^verbatim>\<open>ManagedCallback\<close>\<close>

text \<open>
  Every handler returns \<^verbatim>\<open>S_OK\<close>; a handler is modelled by what it does to the state. The
  collaborators (\<^verbatim>\<open>FindCurrentBreakpointId\<close>, \<^verbatim>\<open>PrintFrameLocation\<close>,
  \<^verbatim>\<open>TryLoadModuleSymbols\<close>, \<^verbatim>\<open>TryResolveBreakpointsForModule\<close>, \<^verbatim>\<open>NotifyEvalComplete\<close>)
  are only declared in main.cpp; they are taken not to call the debuggee controller.
\<close>

text \<open>\<^verbatim>\<open>std::string output; if (SUCCEEDED(pThread->GetActiveFrame(&pFrame)))
  PrintFrameLocation(pFrame, output);\<close>\<close>

definition frame_location :: "ICorDebugThread \<Rightarrow> string" where
  "frame_location pThread =
     (case GetActiveFrame pThread of Some pFrame \<Rightarrow> PrintFrameLocation pFrame | None \<Rightarrow> [])"

text \<open>\<^verbatim>\<open>GetExceptionInfo\<close> (lines 236--265): the contents of \<open>excType\<close> and \<open>excModule\<close>
  after the call. Its status is not looked at by the caller.\<close>

definition GetExceptionInfo :: "ICorDebugThread \<Rightarrow> string \<times> string" where
  "GetExceptionInfo pThread =
     (case GetActiveFrame pThread of
        None \<Rightarrow> ([], [])
      | Some pFrame \<Rightarrow>
          (case GetCurrentException pThread of
             None \<Rightarrow> ([], [])
           | Some excType \<Rightarrow>
               (case GetScopeName pFrame of
                  None \<Rightarrow> (excType, [])
                | Some excModule \<Rightarrow> (excType, excModule))))"

text \<open>\<^verbatim>\<open>HandleEvent\<close> (lines 272--276).\<close>

definition HandleEvent :: "ICorDebugController \<Rightarrow> string \<Rightarrow> debugger \<Rightarrow> debugger" where
  "HandleEvent controller eventName st =
     Continue controller
       (out_printf (''=message,text='' @ quoted (''event received '' @ c_str eventName) @ ''\<newline>'') st)"

text \<open>\<^verbatim>\<open>Breakpoint\<close> (lines 326--348).\<close>

definition Breakpoint :: "ICorDebugAppDomain \<Rightarrow> ICorDebugThread \<Rightarrow> debugger \<Rightarrow> debugger" where
  "Breakpoint pAppDomain pThread st =
     (let id = (case FindCurrentBreakpointId pThread of Some i \<Rightarrow> i | None \<Rightarrow> 0);
          output = frame_location pThread;
          threadId = thread_id pThread
      in SetLastStoppedThread pThread
           (out_printf
              (''*stopped,reason='' @ quoted ''breakpoint-hit'' @
               '',thread-id='' @ quoted (show_int (sint threadId)) @
               '',stopped-threads='' @ quoted ''all'' @
               '',bkptno='' @ quoted (show_nat (unat id)) @
               '',frame={'' @ c_str output @ ''}\<newline>'') st))"

text \<open>\<^verbatim>\<open>StepComplete\<close> (lines 350--370).\<close>

definition StepComplete :: "ICorDebugAppDomain \<Rightarrow> ICorDebugThread \<Rightarrow> debugger \<Rightarrow> debugger" where
  "StepComplete pAppDomain pThread st =
     (let output = frame_location pThread;
          threadId = thread_id pThread
      in SetLastStoppedThread pThread
           (out_printf
              (''*stopped,reason='' @ quoted ''end-stepping-range'' @
               '',thread-id='' @ quoted (show_int (sint threadId)) @
               '',stopped-threads='' @ quoted ''all'' @
               '','' @ c_str output @ ''\<newline>'') st))"

text \<open>\<^verbatim>\<open>Break\<close> (lines 372--374).\<close>

definition Break :: "ICorDebugAppDomain \<Rightarrow> ICorDebugThread \<Rightarrow> debugger \<Rightarrow> debugger" where
  "Break pAppDomain thread st = HandleEvent (AppDomainController (domain_id pAppDomain)) ''Break'' st"

text \<open>\<^verbatim>\<open>Exception\<close> of \<^verbatim>\<open>ICorDebugManagedCallback\<close> (lines 376--405). The text of the
  message for a handled exception ends in a backslash and the letter n, inside the quotes.\<close>

definition Exception ::
  "ICorDebugAppDomain \<Rightarrow> ICorDebugThread \<Rightarrow> bool \<Rightarrow> debugger \<Rightarrow> debugger" where
  "Exception pAppDomain pThread unhandled st =
     (let output = frame_location pThread;
          threadId = thread_id pThread;
          st1 = SetLastStoppedThread pThread st
      in if unhandled then
           out_printf
             (''*stopped,reason='' @ quoted ''exception-received'' @
              '',exception-stage='' @ quoted (c_str (if unhandled then ''unhandled'' else ''handled'')) @
              '',thread-id='' @ quoted (show_int (sint threadId)) @
              '',stopped-threads='' @ quoted ''all'' @
              '','' @ c_str output @ ''\<newline>'') st1
         else
           (case GetExceptionInfo pThread of
              (excType, excModule) \<Rightarrow>
                Continue (AppDomainController (domain_id pAppDomain))
                  (out_printf
                     (''=message,text='' @
                      quoted (''Exception thrown: '' @ [CHR 0x27] @ c_str excType @ [CHR 0x27] @
                              '' in '' @ c_str excModule @ [CHR 0x5C, CHR ''n'']) @
                      '',send-to='' @ quoted ''output-window'' @
                      '',source='' @ quoted ''target-exception'' @ ''\<newline>'') st1)))"

text \<open>\<^verbatim>\<open>EvalComplete\<close> and \<^verbatim>\<open>EvalException\<close> (lines 407--423).\<close>

definition NotifyEvalComplete :: "debugger \<Rightarrow> debugger" where
  "NotifyEvalComplete st = call Call_NotifyEvalComplete st"

definition EvalComplete :: "debugger \<Rightarrow> debugger" where
  "EvalComplete st = NotifyEvalComplete st"

definition EvalException :: "debugger \<Rightarrow> debugger" where
  "EvalException st = NotifyEvalComplete st"

text \<open>\<^verbatim>\<open>CreateProcess\<close> (lines 425--432).\<close>

definition CreateProcess :: "ICorDebugProcess \<Rightarrow> debugger \<Rightarrow> debugger" where
  "CreateProcess pProcess st =
     Continue (ProcessController (process_id pProcess)) (ProcessCreated pProcess st)"

text \<open>\<^verbatim>\<open>ExitProcess\<close> (lines 434--441): the argument of \<^verbatim>\<open>%i\<close> is the constant 0.\<close>

definition ExitProcess :: "ICorDebugProcess \<Rightarrow> debugger \<Rightarrow> run" where
  "ExitProcess pProcess st =
     NotifyProcessExited
       (NotifyEvalComplete
          (out_printf
             (''*stopped,reason='' @ quoted ''exited'' @
              '',exit-code='' @ quoted (show_int 0) @ ''\<newline>'') st))"

text \<open>\<^verbatim>\<open>CreateThread\<close> (lines 443--452) and \<^verbatim>\<open>ExitThread\<close> (lines 454--460).\<close>

definition CreateThread :: "ICorDebugAppDomain \<Rightarrow> ICorDebugThread \<Rightarrow> debugger \<Rightarrow> debugger" where
  "CreateThread pAppDomain thread st =
     (let threadId = thread_id thread
      in Continue (AppDomainController (domain_id pAppDomain))
           (out_printf (''=thread-created,id='' @ quoted (show_int (sint threadId)) @ ''\<newline>'') st))"

definition ExitThread :: "ICorDebugAppDomain \<Rightarrow> ICorDebugThread \<Rightarrow> debugger \<Rightarrow> debugger" where
  "ExitThread pAppDomain thread st =
     HandleEvent (AppDomainController (domain_id pAppDomain)) ''ExitThread'' st"

text \<open>\<^verbatim>\<open>LoadModule\<close> (lines 462--488). A \<^verbatim>\<open>bool\<close> is streamed as 0 or 1.\<close>

definition LoadModule :: "ICorDebugAppDomain \<Rightarrow> ICorDebugModule \<Rightarrow> debugger \<Rightarrow> debugger" where
  "LoadModule pAppDomain pModule st =
     (let st0 = call (Call_TryLoadModuleSymbols (module_key pModule)) st;
          ss = ''id='' @ quoted (''{'' @ loaded_id pModule @ ''}'') @ '','' @
               ''target-name='' @ quoted (EscapeMIValue (loaded_name pModule)) @ '','' @
               ''host-name='' @ quoted (EscapeMIValue (loaded_name pModule)) @ '','' @
               ''symbols-loaded='' @ quoted (if symbolsLoaded pModule then ''1'' else ''0'') @ '','' @
               ''base-address='' @ quoted (''0x'' @ show_hex (unat (baseAddress pModule))) @ '','' @
               ''size='' @ quoted (show_nat (unat (loaded_size pModule)));
          st1 = out_printf (''=library-loaded,'' @ c_str ss @ ''\<newline>'') st0;
          st2 = (if symbolsLoaded pModule
                 then call (Call_TryResolveBreakpointsForModule (module_key pModule)) st1
                 else st1)
      in Continue (AppDomainController (domain_id pAppDomain)) st2)"

text \<open>The handlers that only call \<^verbatim>\<open>HandleEvent\<close> (lines 490--500 and 531--533).\<close>

definition UnloadModule :: "ICorDebugAppDomain \<Rightarrow> debugger \<Rightarrow> debugger" where
  "UnloadModule pAppDomain st =
     HandleEvent (AppDomainController (domain_id pAppDomain)) ''UnloadModule'' st"

definition LoadClass :: "ICorDebugAppDomain \<Rightarrow> debugger \<Rightarrow> debugger" where
  "LoadClass pAppDomain st =
     HandleEvent (AppDomainController (domain_id pAppDomain)) ''LoadClass'' st"

definition UnloadClass :: "ICorDebugAppDomain \<Rightarrow> debugger \<Rightarrow> debugger" where
  "UnloadClass pAppDomain st =
     HandleEvent (AppDomainController (domain_id pAppDomain)) ''UnloadClass'' st"

definition ExitAppDomain :: "ICorDebugProcess \<Rightarrow> ICorDebugAppDomain \<Rightarrow> debugger \<Rightarrow> debugger" where
  "ExitAppDomain pProcess pAppDomain st =
     HandleEvent (AppDomainController (domain_id pAppDomain)) ''ExitAppDomain'' st"

text \<open>\<^verbatim>\<open>DebuggerError\<close> (lines 502--505) prints with \<^verbatim>\<open>printf\<close>.\<close>

definition DebuggerError :: "debugger \<Rightarrow> debugger" where
  "DebuggerError st = st\<lparr>stdout := stdout st @ [''DebuggerError\<newline>'']\<rparr>"

text \<open>The handlers that only resume: \<^verbatim>\<open>LogMessage\<close>, \<^verbatim>\<open>LogSwitch\<close> (lines 507--520),
  \<^verbatim>\<open>CreateAppDomain\<close> (lines 522--529), \<^verbatim>\<open>LoadAssembly\<close> (lines 535--542) and \<^verbatim>\<open>Exception\<close>
  of \<^verbatim>\<open>ICorDebugManagedCallback2\<close> (lines 595--616).\<close>

definition LogMessage :: "ICorDebugAppDomain \<Rightarrow> ICorDebugThread \<Rightarrow> debugger \<Rightarrow> debugger" where
  "LogMessage pAppDomain pThread st = Continue (AppDomainController (domain_id pAppDomain)) st"

definition LogSwitch :: "ICorDebugAppDomain \<Rightarrow> ICorDebugThread \<Rightarrow> debugger \<Rightarrow> debugger" where
  "LogSwitch pAppDomain pThread st = Continue (AppDomainController (domain_id pAppDomain)) st"

definition CreateAppDomain :: "ICorDebugProcess \<Rightarrow> ICorDebugAppDomain \<Rightarrow> debugger \<Rightarrow> debugger" where
  "CreateAppDomain pProcess pAppDomain st = Continue (ProcessController (process_id pProcess)) st"

definition LoadAssembly :: "ICorDebugAppDomain \<Rightarrow> debugger \<Rightarrow> debugger" where
  "LoadAssembly pAppDomain st = Continue (AppDomainController (domain_id pAppDomain)) st"

definition Exception2 :: "ICorDebugAppDomain \<Rightarrow> ICorDebugThread \<Rightarrow> debugger \<Rightarrow> debugger" where
  "Exception2 pAppDomain pThread st = Continue (AppDomainController (domain_id pAppDomain)) st"

text \<open>
  A notification is a call of one handler by the runtime, with the arguments the handler
  uses. The thirteen handlers whose body is \<^verbatim>\<open>return S_OK;\<close> (\<^verbatim>\<open>UnloadAssembly\<close>,
  \<^verbatim>\<open>ControlCTrap\<close>, \<^verbatim>\<open>NameChange\<close>, \<^verbatim>\<open>UpdateModuleSymbols\<close>, \<^verbatim>\<open>EditAndContinueRemap\<close>,
  \<^verbatim>\<open>BreakpointSetError\<close>, \<^verbatim>\<open>FunctionRemapOpportunity\<close>, \<^verbatim>\<open>CreateConnection\<close>,
  \<^verbatim>\<open>ChangeConnection\<close>, \<^verbatim>\<open>DestroyConnection\<close>, \<^verbatim>\<open>ExceptionUnwind\<close>,
  \<^verbatim>\<open>FunctionRemapComplete\<close>, \<^verbatim>\<open>MDANotification\<close>) are the one notification \<open>N_Silent\<close>.
\<close>

datatype notification =
    N_Breakpoint ICorDebugAppDomain ICorDebugThread
  | N_StepComplete ICorDebugAppDomain ICorDebugThread
  | N_Break ICorDebugAppDomain ICorDebugThread
  | N_Exception ICorDebugAppDomain ICorDebugThread bool
  | N_EvalComplete
  | N_EvalException
  | N_CreateProcess ICorDebugProcess
  | N_ExitProcess ICorDebugProcess
  | N_CreateThread ICorDebugAppDomain ICorDebugThread
  | N_ExitThread ICorDebugAppDomain ICorDebugThread
  | N_LoadModule ICorDebugAppDomain ICorDebugModule
  | N_UnloadModule ICorDebugAppDomain
  | N_LoadClass ICorDebugAppDomain
  | N_UnloadClass ICorDebugAppDomain
  | N_DebuggerError
  | N_LogMessage ICorDebugAppDomain ICorDebugThread
  | N_LogSwitch ICorDebugAppDomain ICorDebugThread
  | N_CreateAppDomain ICorDebugProcess ICorDebugAppDomain
  | N_ExitAppDomain ICorDebugProcess ICorDebugAppDomain
  | N_LoadAssembly ICorDebugAppDomain
  | N_Exception2 ICorDebugAppDomain ICorDebugThread
  | N_Silent

fun dispatch :: "notification \<Rightarrow> debugger \<Rightarrow> run" where
  "dispatch (N_Breakpoint ad th) st = Done (Breakpoint ad th st)"
| "dispatch (N_StepComplete ad th) st = Done (StepComplete ad th st)"
| "dispatch (N_Break ad th) st = Done (Break ad th st)"
| "dispatch (N_Exception ad th unhandled) st = Done (Exception ad th unhandled st)"
| "dispatch N_EvalComplete st = Done (EvalComplete st)"
| "dispatch N_EvalException st = Done (EvalException st)"
| "dispatch (N_CreateProcess p) st = Done (CreateProcess p st)"
| "dispatch (N_ExitProcess p) st = ExitProcess p st"
| "dispatch (N_CreateThread ad th) st = Done (CreateThread ad th st)"
| "dispatch (N_ExitThread ad th) st = Done (ExitThread ad th st)"
| "dispatch (N_LoadModule ad m) st = Done (LoadModule ad m st)"
| "dispatch (N_UnloadModule ad) st = Done (UnloadModule ad st)"
| "dispatch (N_LoadClass ad) st = Done (LoadClass ad st)"
| "dispatch (N_UnloadClass ad) st = Done (UnloadClass ad st)"
| "dispatch N_DebuggerError st = Done (DebuggerError st)"
| "dispatch (N_LogMessage ad th) st = Done (LogMessage ad th st)"
| "dispatch (N_LogSwitch ad th) st = Done (LogSwitch ad th st)"
| "dispatch (N_CreateAppDomain p ad) st = Done (CreateAppDomain p ad st)"
| "dispatch (N_ExitAppDomain p ad) st = Done (ExitAppDomain p ad st)"
| "dispatch (N_LoadAssembly ad) st = Done (LoadAssembly ad st)"
| "dispatch (N_Exception2 ad th) st = Done (Exception2 ad th st)"
| "dispatch N_Silent st = Done st"

section \<open>Waiting for the exit of the debuggee\<close>

text \<open>
  \<^verbatim>\<open>WaitProcessExited\<close> (lines 49--54) returns at once when the registry is empty.
  Otherwise the caller sleeps on \<open>g_processCV\<close> until the registry is empty, and the only
  code that empties it is \<^verbatim>\<open>NotifyProcessExited\<close>, which the runtime's thread runs inside
  the \<^verbatim>\<open>ExitProcess\<close> handler. The first argument is the sequence of notifications the
  runtime delivers from the moment of the call on; the handlers run one after the other
  while the caller sleeps. \<open>None\<close> is a call that never returns: the notifications end, or
  the dispatcher stops at the null dereference, with a process still registered. The
  notifications not yet delivered are handed back with the state. A notification handled
  between the forced kill and the start of the wait leaves the same state as one handled
  at the start of the wait.
\<close>

fun WaitProcessExited ::
  "notification list \<Rightarrow> debugger \<Rightarrow> (notification list \<times> debugger) option" where
  "WaitProcessExited [] st = (if g_process st = None then Some ([], st) else None)"
| "WaitProcessExited (n # ns) st =
     (if g_process st = None then Some (n # ns, st)
      else (case dispatch n st of
              Done st' \<Rightarrow> WaitProcessExited ns st'
            | NullDereference st' \<Rightarrow> None))"

section \<open>Debugger facade\<close>

text \<open>\<^verbatim>\<open>Debugger::DetachFromProcess\<close> (lines 640--661).\<close>

definition DetachFromProcess :: "debugger \<Rightarrow> HRESULT \<times> debugger" where
  "DetachFromProcess st =
     (case (m_pProcess st, m_pDebug st) of
        (Some p, Some d) \<Rightarrow>
          (let st1 = call (Call_Stop (process_id p)) st;
               st2 = (if SUCCEEDED (Stop p)
                      then call (Call_Detach (process_id p))
                             (snd (DisableAllBreakpointsAndSteppers p st1))
                      else st1);
               st3 = call Call_CleanupAllModules st2;
               st4 = (call (Call_Release (process_id p)) st3)\<lparr>m_pProcess := None\<rparr>;
               st5 = (call (Call_DebugTerminate (debug_id d)) st4)\<lparr>m_pDebug := None\<rparr>
           in (S_OK, st5))
      | other \<Rightarrow> (E_FAIL, st))"

text \<open>\<^verbatim>\<open>Debugger::TerminateProcess\<close> (lines 663--687), in three parts: the statements up to
  the forced kill \<^verbatim>\<open>m_pProcess->Terminate(0)\<close>, the wait, and the release afterwards.\<close>

definition TerminateProcess_kill ::
  "ICorDebugProcess \<Rightarrow> debugger \<Rightarrow> debugger" where
  "TerminateProcess_kill p st =
     (let st1 = call (Call_Stop (process_id p)) st;
          st2 = (if SUCCEEDED (Stop p)
                 then snd (DisableAllBreakpointsAndSteppers p st1)
                 else st1);
          st3 = call Call_CleanupAllModules st2
      in call (Call_Terminate (process_id p)) st3)"

definition TerminateProcess_release ::
  "ICorDebugProcess \<Rightarrow> ICorDebug \<Rightarrow> debugger \<Rightarrow> debugger" where
  "TerminateProcess_release p d st =
     (let st1 = (call (Call_Release (process_id p)) st)\<lparr>m_pProcess := None\<rparr>
      in (call (Call_DebugTerminate (debug_id d)) st1)\<lparr>m_pDebug := None\<rparr>)"

definition TerminateProcess ::
  "notification list \<Rightarrow> debugger \<Rightarrow> (HRESULT \<times> notification list \<times> debugger) option" where
  "TerminateProcess ns st =
     (case (m_pProcess st, m_pDebug st) of
        (Some p, Some d) \<Rightarrow>
          (case WaitProcessExited ns (TerminateProcess_kill p st) of
             None \<Rightarrow> None
           | Some (ns', st') \<Rightarrow> Some (S_OK, ns', TerminateProcess_release p d st'))
      | other \<Rightarrow> Some (E_FAIL, ns, st))"

text \<open>
  \<^verbatim>\<open>Debugger::AttachToProcess\<close> (lines 689--748). The function returns an \<^verbatim>\<open>HRESULT\<close>; the
  model keeps the three kinds of failing return apart and \<open>attach_status\<close> gives the code
  returned: \<^verbatim>\<open>E_FAIL\<close> at ``Already attached'', \<^verbatim>\<open>E_INVALIDARG\<close> at ``Unable to find
  libcoreclr.so'', and the status of the failing native call otherwise.
\<close>

datatype attach_error = AlreadyAttached | RuntimeNotFound | NativeFailure HRESULT

fun attach_status :: "attach_error + unit \<Rightarrow> HRESULT" where
  "attach_status (Inl AlreadyAttached) = E_FAIL"
| "attach_status (Inl RuntimeNotFound) = E_INVALIDARG"
| "attach_status (Inl (NativeFailure Status)) = Status"
| "attach_status (Inr u) = S_OK"

text \<open>Lines 703--747: from \<^verbatim>\<open>GetCoreCLRPath(pid)\<close> on. The conversion of the path to wide
  characters is left out: the path is handed on as it is.\<close>

definition AttachToProcess_runtime ::
  "platform \<Rightarrow> int \<Rightarrow> debugger \<Rightarrow> (attach_error + unit) \<times> debugger" where
  "AttachToProcess_runtime os pid st =
     (let coreclrPath = GetCoreCLRPath os pid
      in if coreclrPath = [] then (Inl RuntimeNotFound, st)
         else
           (let st1 = call (Call_SetCoreCLRPath coreclrPath) st
            in case CreateVersionStringFromModule os pid coreclrPath of
                 (Status1, pBuffer) \<Rightarrow>
                   if FAILED Status1 then (Inl (NativeFailure Status1), st1)
                   else
                     (case CreateDebuggingInterfaceFromVersionEx os pBuffer of
                        (Status2, pCordb) \<Rightarrow>
                          if FAILED Status2 then (Inl (NativeFailure Status2), st1)
                          else
                            (case QueryInterface_ICorDebug pCordb of
                               (Status3, pCorDebug) \<Rightarrow>
                                 if FAILED Status3 then (Inl (NativeFailure Status3), st1)
                                 else
                                   (let st2 = call (Call_Initialize (debug_id pCorDebug)) st1
                                    in if FAILED (Initialize pCorDebug)
                                       then (Inl (NativeFailure (Initialize pCorDebug)), st2)
                                       else
                                         (let st3 = call (Call_SetManagedHandler (debug_id pCorDebug)) st2
                                          in if FAILED (SetManagedHandler pCorDebug)
                                             then (Inl (NativeFailure (SetManagedHandler pCorDebug)),
                                                   call (Call_DebugTerminate (debug_id pCorDebug)) st3)
                                             else
                                               (let st4 = call (Call_DebugActiveProcess (debug_id pCorDebug) pid) st3
                                                in case DebugActiveProcess pCorDebug pid of
                                                     (Status4, pProcess) \<Rightarrow>
                                                       if FAILED Status4
                                                       then (Inl (NativeFailure Status4),
                                                             call (Call_DebugTerminate (debug_id pCorDebug)) st4)
                                                       else (Inr (),
                                                             st4\<lparr>m_pProcess := Some pProcess,
                                                                 m_pDebug := Some pCorDebug\<rparr>))))))))"

text \<open>Lines 693--701, then the rest. The result of the inner \<^verbatim>\<open>TerminateProcess()\<close> is not
  looked at.\<close>

definition AttachToProcess ::
  "platform \<Rightarrow> int \<Rightarrow> notification list \<Rightarrow> debugger \<Rightarrow>
     ((attach_error + unit) \<times> notification list \<times> debugger) option" where
  "AttachToProcess os pid ns st =
     (if m_pProcess st \<noteq> None \<or> m_pDebug st \<noteq> None then
        (if g_process st \<noteq> None then Some (Inl AlreadyAttached, ns, st)
         else
           (case TerminateProcess ns st of
              None \<Rightarrow> None
            | Some (Status, ns', st') \<Rightarrow>
                (case AttachToProcess_runtime os pid st' of
                   (r, st'') \<Rightarrow> Some (r, ns', st''))))
      else
        (case AttachToProcess_runtime os pid st of
           (r, st'') \<Rightarrow> Some (r, ns, st'')))"

section \<open>Relations between states\<close>

text \<open>The second state has the members of the facade of the first, and its output and
  log of calls with more at the end.\<close>

definition extends :: "debugger \<Rightarrow> debugger \<Rightarrow> bool" where
  "extends st st' \<longleftrightarrow>
     m_pProcess st' = m_pProcess st \<and> m_pDebug st' = m_pDebug st \<and>
     (\<exists>texts. stdout st' = stdout st @ texts) \<and> (\<exists>cs. calls st' = calls st @ cs)"


section \<open>Concrete objects and states\<close>

text \<open>A debugger that has not attached and has printed nothing.\<close>

definition idle :: debugger where
  "idle = \<lparr>g_process = None, g_lastStoppedThreadId = 0, m_pProcess = None, m_pDebug = None,
            stdout = [], calls = []\<rparr>"

text \<open>A thread with id 7, stopped at breakpoint 3 in a frame rendered as
  \<open>Program.Main() Line 10\<close>.\<close>

definition frame_main :: ICorDebugFrame where
  "frame_main = \<lparr>PrintFrameLocation = ''Program.Main() Line 10'', GetScopeName = None\<rparr>"

definition thread7 :: ICorDebugThread where
  "thread7 = \<lparr>GetID = Some 7, GetActiveFrame = Some frame_main, GetCurrentException = None,
               FindCurrentBreakpointId = Some 3\<rparr>"

definition domain1 :: ICorDebugAppDomain where
  "domain1 = \<lparr>domain_id = 1, EnumerateBreakpoints = Some [3], EnumerateSteppers = Some []\<rparr>"

text \<open>A process whose \<^verbatim>\<open>Stop\<close> succeeds, one whose \<^verbatim>\<open>Stop\<close> fails, and the native
  interface they were attached through. A read of their memory stores the length asked
  for.\<close>

definition process1 :: ICorDebugProcess where
  "process1 = \<lparr>process_id = 1, Stop = S_OK, EnumerateAppDomains = (S_OK, [domain1]),
                ReadMemory = (\<lambda>k a n. (S_OK, Some (ucast n)))\<rparr>"

definition process_stop_fails :: ICorDebugProcess where
  "process_stop_fails = process1\<lparr>Stop := E_FAIL\<rparr>"

definition debug1 :: ICorDebug where
  "debug1 = \<lparr>debug_id = 1, Initialize = S_OK, SetManagedHandler = S_OK,
              DebugActiveProcess = (\<lambda>pid. (S_OK, process1))\<rparr>"


definition attached_stop_fails :: debugger where
  "attached_stop_fails =
     idle\<lparr>g_process := Some process_stop_fails, m_pProcess := Some process_stop_fails,
          m_pDebug := Some debug1\<rparr>"

text \<open>
  A debuggee that is running while its memory is read: the page at \<open>0x1000\<close> is not
  readable at the first read and has been mapped by the time of the second. Each read
  stores at most the length it was asked for.
\<close>

definition process_mapping :: ICorDebugProcess where
  "process_mapping =
     process1\<lparr>ReadMemory := (\<lambda>k a n. if k = 0 then (E_FAIL, Some 0) else (S_OK, Some (ucast n)))\<rparr>"

definition reading :: debugger where
  "reading = idle\<lparr>g_process := Some process_mapping, m_pProcess := Some process_mapping,
                  m_pDebug := Some debug1\<rparr>"

text \<open>A machine on which no process has a runtime image.\<close>

definition unknown_object :: IUnknown where
  "unknown_object = \<lparr>QueryInterface_ICorDebug = (S_OK, debug1)\<rparr>"

definition os_without_runtime :: platform where
  "os_without_runtime =
     \<lparr>GetCoreCLRPath = (\<lambda>pid. []),
      CreateVersionStringFromModule = (\<lambda>pid path. (S_OK, ''4.0'')),
      CreateDebuggingInterfaceFromVersionEx = (\<lambda>version. (S_OK, unknown_object))\<rparr>"



section \<open>Properties of the escaping\<close>

lemma escape_letter_None_iff: "escape_letter c = None \<longleftrightarrow> c \<notin> escape_set"
  by (simp add: escape_letter_def escape_set_def)

lemma escape_letter_inverse: "escape_letter c = Some l \<Longrightarrow> unescape_letter l = Some c"
  by (auto simp: escape_letter_def unescape_letter_def split: if_splits)

lemma escape_letter_None_not_backslash: "escape_letter c = None \<Longrightarrow> c \<noteq> CHR 0x5C"
  by (auto simp: escape_letter_def)

lemma escaped_position:
  assumes "i < length s"
  shows "(string_insert s i 1 (CHR 0x5C))[i + 1 := l] = take i s @ [CHR 0x5C, l] @ drop (Suc i) s"
proof -
  from assms have "drop i s = s ! i # drop (Suc i) s"
    by (simp add: Cons_nth_drop_Suc)
  then have "string_insert s i 1 (CHR 0x5C) = take i s @ CHR 0x5C # s ! i # drop (Suc i) s"
    by (simp add: string_insert_def)
  moreover from assms have "length (take i s) = i"
    by simp
  ultimately show ?thesis
    by (simp add: list_update_append)
qed

lemma EscapeMIValue_loop_concat:
  "i \<le> length s \<Longrightarrow>
   EscapeMIValue_loop s i = take i s @ concat (map escape_char (drop i s))"
proof (induction s i rule: EscapeMIValue_loop.induct)
  case (1 s i)
  show ?case
  proof (cases "i < length s")
    case False
    have "EscapeMIValue_loop s i = s"
      using False by (subst EscapeMIValue_loop.simps) simp
    with False "1.prems" show ?thesis
      by simp
  next
    case True
    then have dr: "drop i s = s ! i # drop (Suc i) s"
      by (simp add: Cons_nth_drop_Suc)
    show ?thesis
    proof (cases "escape_letter (s ! i)")
      case None
      from True have "take (Suc i) s = take i s @ [s ! i]"
        by (simp add: take_Suc_conv_app_nth)
      moreover have "EscapeMIValue_loop s i = EscapeMIValue_loop s (i + 0 + 1)"
        using True None by (subst EscapeMIValue_loop.simps) simp
      moreover from None have "escape_char (s ! i) = [s ! i]"
        by (simp add: escape_char_def)
      ultimately show ?thesis
        using True "1.IH"(1) [OF True None] by (simp add: dr)
    next
      case (Some l)
      let ?s = "(string_insert s i 1 (CHR 0x5C))[i + 1 := l]"
      have s': "?s = (take i s @ [CHR 0x5C, l]) @ drop (Suc i) s"
        using escaped_position [OF True] by simp
      from True have len: "length (take i s @ [CHR 0x5C, l]) = i + 1 + 1"
        by simp
      have tk: "take (i + 1 + 1) ?s = take i s @ [CHR 0x5C, l]"
        unfolding s' using len by (metis append_eq_conv_conj)
      have dp: "drop (i + 1 + 1) ?s = drop (Suc i) s"
        unfolding s' using len by (metis append_eq_conv_conj)
      from True have "i + 1 + 1 \<le> length ?s"
        by (simp add: string_insert_def)
      from "1.IH"(2) [OF True Some this]
      have "EscapeMIValue_loop ?s (i + 1 + 1) =
              take i s @ [CHR 0x5C, l] @ concat (map escape_char (drop (Suc i) s))"
        by (simp only: tk dp append_assoc)
      moreover have "EscapeMIValue_loop s i = EscapeMIValue_loop ?s (i + 1 + 1)"
        using True Some by (subst EscapeMIValue_loop.simps) simp
      moreover from Some have "escape_char (s ! i) = [CHR 0x5C, l]"
        by (simp add: escape_char_def)
      ultimately show ?thesis
        by (simp add: dr)
    qed
  qed
qed

lemma EscapeMIValue_concat: "EscapeMIValue s = concat (map escape_char s)"
  by (simp add: EscapeMIValue_def EscapeMIValue_loop_concat)

lemma UnescapeMIValue_escape_char:
  "UnescapeMIValue (escape_char c @ concat (map escape_char s)) =
   c # UnescapeMIValue (concat (map escape_char s))"
proof (cases "escape_letter c")
  case (Some l)
  then show ?thesis
    by (simp add: escape_char_def escape_letter_inverse)
next
  case None
  then have c: "c \<noteq> CHR 0x5C"
    by (rule escape_letter_None_not_backslash)
  have "UnescapeMIValue (c # rest) = c # UnescapeMIValue rest" for rest
    using c by (cases rest) simp_all
  with None show ?thesis
    by (simp add: escape_char_def)
qed

lemma UnescapeMIValue_concat: "UnescapeMIValue (concat (map escape_char s)) = s"
  by (induction s) (simp_all add: UnescapeMIValue_escape_char)

lemma escape_char_plain: "c \<notin> escape_set \<Longrightarrow> escape_char c = [c]"
  by (simp add: escape_char_def escape_letter_None_iff [symmetric])

lemma concat_escape_char_plain:
  "set s \<inter> escape_set = {} \<Longrightarrow> concat (map escape_char s) = s"
  by (induction s) (simp_all add: escape_char_plain)

text \<open>
  Claim C1. For every string \<open>S\<close>, unescaping the escaped string gives \<open>S\<close> back; a
  character outside the escape set is copied as it is, wherever it stands; a string
  without escape-set characters is returned unchanged; and the empty string is escaped to
  the empty string.
\<close>

theorem EscapeMIValue_roundtrip:
  "UnescapeMIValue (EscapeMIValue S) = S \<and>
   (c \<notin> escape_set \<longrightarrow>
      EscapeMIValue (xs @ c # ys) = EscapeMIValue xs @ c # EscapeMIValue ys) \<and>
   (set S \<inter> escape_set = {} \<longrightarrow> EscapeMIValue S = S) \<and>
   EscapeMIValue [] = []"
  by (simp add: EscapeMIValue_concat UnescapeMIValue_concat escape_char_plain
      concat_escape_char_plain)

theorem EscapeMIValue_roundtrip_witness:
  "UnescapeMIValue (EscapeMIValue ''a'') = ''a'' \<and>
   CHR ''b'' \<notin> escape_set \<and>
   EscapeMIValue ([CHR 0x22] @ CHR ''b'' # [CHR 0x0A]) =
     EscapeMIValue [CHR 0x22] @ CHR ''b'' # EscapeMIValue [CHR 0x0A] \<and>
   set ''a.dll'' \<inter> escape_set = {} \<and> EscapeMIValue ''a.dll'' = ''a.dll''"
proof -
  have b: "CHR ''b'' \<notin> escape_set"
    by (simp add: escape_set_def)
  have p: "set ''a.dll'' \<inter> escape_set = {}"
    by (simp add: escape_set_def)
  from EscapeMIValue_roundtrip [of "''a''" "CHR ''b''" "[CHR 0x22]" "[CHR 0x0A]"] b
  have 1: "UnescapeMIValue (EscapeMIValue ''a'') = ''a''"
    and 2: "EscapeMIValue ([CHR 0x22] @ CHR ''b'' # [CHR 0x0A]) =
            EscapeMIValue [CHR 0x22] @ CHR ''b'' # EscapeMIValue [CHR 0x0A]"
    by blast+
  from EscapeMIValue_roundtrip [of "''a.dll''" "CHR ''b''" "[]" "[]"] p
  have 3: "EscapeMIValue ''a.dll'' = ''a.dll''"
    by blast
  from 1 2 3 b p show ?thesis
    by blast
qed

section \<open>Properties of the dispatcher\<close>

lemma calls_out_printf [simp]: "calls (out_printf text st) = calls st"
  by (simp add: out_printf_def)

lemma calls_SetLastStoppedThread [simp]: "calls (SetLastStoppedThread th st) = calls st"
  by (simp add: SetLastStoppedThread_def)

lemma calls_Continue [simp]: "calls (Continue c st) = calls st @ [Call_Continue c]"
  by (simp add: Continue_def call_def)

lemma calls_call [simp]: "calls (call c st) = calls st @ [c]"
  by (simp add: call_def)

lemma calls_Breakpoint: "calls (Breakpoint ad th st) = calls st"
  by (simp add: Breakpoint_def Let_def)

lemma calls_StepComplete: "calls (StepComplete ad th st) = calls st"
  by (simp add: StepComplete_def Let_def)

lemma calls_Exception_unhandled: "calls (Exception ad th True st) = calls st"
  by (simp add: Exception_def Let_def)

lemma calls_Exception_handled:
  "calls (Exception ad th False st) = calls st @ [Call_Continue (AppDomainController (domain_id ad))]"
  by (simp add: Exception_def Let_def split: prod.split)

lemma calls_CreateThread:
  "calls (CreateThread ad th st) = calls st @ [Call_Continue (AppDomainController (domain_id ad))]"
  by (simp add: CreateThread_def Let_def)

lemma calls_LoadModule:
  "calls (LoadModule ad m st) =
     calls st @ [Call_TryLoadModuleSymbols (module_key m)] @
     (if symbolsLoaded m then [Call_TryResolveBreakpointsForModule (module_key m)] else []) @
     [Call_Continue (AppDomainController (domain_id ad))]"
  by (simp add: LoadModule_def Let_def)

lemma calls_CreateAppDomain:
  "calls (CreateAppDomain p ad st) = calls st @ [Call_Continue (ProcessController (process_id p))]"
  by (simp add: CreateAppDomain_def)

lemma calls_LogMessage:
  "calls (LogMessage ad th st) = calls st @ [Call_Continue (AppDomainController (domain_id ad))]"
  by (simp add: LogMessage_def)

text \<open>
  Claim C3. The handlers of the stop-class notifications (breakpoint hit, step complete,
  unhandled exception) issue no call at all on the native interface, so the number of
  \<^verbatim>\<open>Continue\<close> calls is the same after the handler as before it.
\<close>

theorem stop_handlers_do_not_continue:
  "continue_count (Breakpoint ad th st) = continue_count st \<and>
   continue_count (StepComplete ad th st) = continue_count st \<and>
   continue_count (Exception ad th True st) = continue_count st \<and>
   calls (Breakpoint ad th st) = calls st \<and>
   calls (StepComplete ad th st) = calls st \<and>
   calls (Exception ad th True st) = calls st"
  by (simp add: continue_count_def calls_Breakpoint calls_StepComplete calls_Exception_unhandled)

text \<open>
  Claim C4. The handlers of thread created, module loaded, handled exception, app-domain
  created and log message issue exactly one \<^verbatim>\<open>Continue\<close>, and it is the last call they make.
\<close>

theorem non_stop_handlers_continue_once:
  "continue_count (CreateThread ad th st) = continue_count st + 1 \<and>
   continue_count (LoadModule ad m st) = continue_count st + 1 \<and>
   continue_count (Exception ad th False st) = continue_count st + 1 \<and>
   continue_count (CreateAppDomain p ad st) = continue_count st + 1 \<and>
   continue_count (LogMessage ad th st) = continue_count st + 1 \<and>
   last (calls (CreateThread ad th st)) = Call_Continue (AppDomainController (domain_id ad)) \<and>
   last (calls (LoadModule ad m st)) = Call_Continue (AppDomainController (domain_id ad)) \<and>
   last (calls (Exception ad th False st)) = Call_Continue (AppDomainController (domain_id ad)) \<and>
   last (calls (CreateAppDomain p ad st)) = Call_Continue (ProcessController (process_id p)) \<and>
   last (calls (LogMessage ad th st)) = Call_Continue (AppDomainController (domain_id ad))"
  by (simp add: continue_count_def calls_CreateThread calls_LoadModule calls_Exception_handled
      calls_CreateAppDomain calls_LogMessage)

text \<open>
  Claim C10. The exception handler stores the id of the notifying thread as the last
  stopped thread whether the exception is unhandled or handled; for a handled exception it
  does so and then resumes the debuggee.
\<close>

theorem Exception_sets_last_stopped_thread:
  "GetLastStoppedThreadId (Exception ad th unhandled st) = sint (thread_id th) \<and>
   GetLastStoppedThreadId (Exception ad (th\<lparr>GetID := Some i\<rparr>) False st) = sint i \<and>
   continue_count (Exception ad (th\<lparr>GetID := Some i\<rparr>) False st) = continue_count st + 1"
  by (simp add: continue_count_def calls_Exception_handled)
     (simp add: Exception_def Let_def GetLastStoppedThreadId_def SetLastStoppedThread_def
        out_printf_def Continue_def call_def thread_id_def split: prod.split)

lemma show_nat_digit: "n < 10 \<Longrightarrow> show_nat n = [digit n]"
  by (subst show_nat.simps) simp

lemma stdout_NotifyProcessExited: "stdout (final (NotifyProcessExited st)) = stdout st"
  by (simp add: NotifyProcessExited_def call_def split: option.split)

text \<open>
  Claim C9. Whatever process exits and whatever the state, the line the exit handler
  writes is \<open>*stopped,reason="exited",exit-code="0"\<close> and a newline: the exit code in it is
  the constant 0.
\<close>

theorem ExitProcess_line:
  "stdout (final (ExitProcess pProcess st)) =
     stdout st @
     [''*stopped,reason='' @ [CHR 0x22] @ ''exited'' @ [CHR 0x22] @
      '',exit-code='' @ [CHR 0x22] @ ''0'' @ [CHR 0x22] @ [CHR 0x0A]]"
  by (simp add: ExitProcess_def stdout_NotifyProcessExited NotifyEvalComplete_def call_def
      out_printf_def quoted_def show_int_def show_nat_digit digit_def)

text \<open>
  Claim C6. A breakpoint hit on a thread whose id resolves to 7, at the breakpoint whose
  id resolves to 3, in a frame rendered as \<open>Program.Main() Line 10\<close>, writes exactly the
  line of the scenario, followed by a newline, and leaves 7 as the last stopped thread.
\<close>

theorem Breakpoint_line:
  assumes "GetID th = Some 7"
    and "FindCurrentBreakpointId th = Some 3"
    and "GetActiveFrame th = Some fr"
    and "PrintFrameLocation fr = ''Program.Main() Line 10''"
  shows "stdout (Breakpoint ad th st) =
           stdout st @
           [''*stopped,reason='' @ [CHR 0x22] @ ''breakpoint-hit'' @ [CHR 0x22] @
            '',thread-id='' @ [CHR 0x22] @ ''7'' @ [CHR 0x22] @
            '',stopped-threads='' @ [CHR 0x22] @ ''all'' @ [CHR 0x22] @
            '',bkptno='' @ [CHR 0x22] @ ''3'' @ [CHR 0x22] @
            '',frame={Program.Main() Line 10}'' @ [CHR 0x0A]]
         \<and> GetLastStoppedThreadId (Breakpoint ad th st) = 7"
  using assms
  by (simp add: Breakpoint_def Let_def SetLastStoppedThread_def out_printf_def
      GetLastStoppedThreadId_def thread_id_def frame_location_def quoted_def c_str_def
      show_int_def show_nat_digit digit_def)

theorem Breakpoint_line_witness:
  "GetID thread7 = Some 7 \<and> FindCurrentBreakpointId thread7 = Some 3 \<and>
   GetActiveFrame thread7 = Some frame_main \<and>
   PrintFrameLocation frame_main = ''Program.Main() Line 10'' \<and>
   stdout (Breakpoint domain1 thread7 idle) =
     [''*stopped,reason='' @ [CHR 0x22] @ ''breakpoint-hit'' @ [CHR 0x22] @
      '',thread-id='' @ [CHR 0x22] @ ''7'' @ [CHR 0x22] @
      '',stopped-threads='' @ [CHR 0x22] @ ''all'' @ [CHR 0x22] @
      '',bkptno='' @ [CHR 0x22] @ ''3'' @ [CHR 0x22] @
      '',frame={Program.Main() Line 10}'' @ [CHR 0x0A]]
   \<and> GetLastStoppedThreadId (Breakpoint domain1 thread7 idle) = 7"
proof -
  have h: "GetID thread7 = Some 7" "FindCurrentBreakpointId thread7 = Some 3"
    "GetActiveFrame thread7 = Some frame_main"
    "PrintFrameLocation frame_main = ''Program.Main() Line 10''"
    by (simp_all add: thread7_def frame_main_def)
  have "stdout idle = []"
    by (simp add: idle_def)
  with h Breakpoint_line [OF h, of domain1 idle] show ?thesis
    by simp
qed

section \<open>Properties of the facade\<close>

lemma FAILED_iff: "FAILED hr \<longleftrightarrow> \<not> SUCCEEDED hr"
  by (auto simp: FAILED_def SUCCEEDED_def)

text \<open>
  Claim C8, as the code has it. When \<^verbatim>\<open>Stop\<close> fails, the block guarded by
  \<^verbatim>\<open>SUCCEEDED(m_pProcess->Stop(0))\<close> is skipped whole, and \<^verbatim>\<open>Detach\<close> is inside that block
  with the disabling of breakpoints and steppers: after the failed \<^verbatim>\<open>Stop\<close> the calls
  issued are the release of the module bookkeeping, the release of the process reference
  and the termination of the native interface, and no others. The call returns \<^verbatim>\<open>S_OK\<close>
  with both members of the facade cleared.
\<close>

theorem DetachFromProcess_stop_fails:
  assumes "m_pProcess st = Some p" and "m_pDebug st = Some d" and "FAILED (Stop p)"
  shows "DetachFromProcess st =
           (S_OK, st\<lparr>m_pProcess := None, m_pDebug := None,
                     calls := calls st @ [Call_Stop (process_id p), Call_CleanupAllModules,
                                          Call_Release (process_id p),
                                          Call_DebugTerminate (debug_id d)]\<rparr>)
         \<and> Call_Detach (process_id p) \<notin>
             set (drop (length (calls st)) (calls (snd (DetachFromProcess st))))"
  using assms by (simp add: DetachFromProcess_def FAILED_iff call_def Let_def)

theorem DetachFromProcess_stop_fails_witness:
  "m_pProcess attached_stop_fails = Some process_stop_fails \<and>
   m_pDebug attached_stop_fails = Some debug1 \<and>
   FAILED (Stop process_stop_fails) \<and>
   DetachFromProcess attached_stop_fails =
     (S_OK, attached_stop_fails\<lparr>m_pProcess := None, m_pDebug := None,
              calls := [Call_Stop 1, Call_CleanupAllModules, Call_Release 1,
                        Call_DebugTerminate 1]\<rparr>)"
proof -
  have h: "m_pProcess attached_stop_fails = Some process_stop_fails"
    "m_pDebug attached_stop_fails = Some debug1" "FAILED (Stop process_stop_fails)"
    by (simp_all add: attached_stop_fails_def process_stop_fails_def FAILED_def E_FAIL_def)
  have "calls attached_stop_fails = []" "process_id process_stop_fails = 1" "debug_id debug1 = 1"
    by (simp_all add: attached_stop_fails_def idle_def process_stop_fails_def process1_def
        debug1_def)
  with h DetachFromProcess_stop_fails [OF h] show ?thesis
    by simp
qed

text \<open>
  Claim C8, as the spec has it, fails: at the attached state whose process refuses to
  stop, the detach call is not among the calls issued.
\<close>

theorem DetachFromProcess_stop_fails_no_detach:
  "m_pProcess attached_stop_fails = Some process_stop_fails \<and>
   m_pDebug attached_stop_fails = Some debug1 \<and>
   \<not> SUCCEEDED (Stop process_stop_fails) \<and>
   Call_Detach (process_id process_stop_fails) \<notin>
     set (calls (snd (DetachFromProcess attached_stop_fails)))"
  by (simp add: DetachFromProcess_def attached_stop_fails_def process_stop_fails_def
      process1_def debug1_def idle_def SUCCEEDED_def E_FAIL_def call_def Let_def)

lemma WaitProcessExited_empty_registry:
  "g_process st = None \<Longrightarrow> WaitProcessExited ns st = Some (ns, st)"
  by (cases ns) simp_all

lemma g_process_call [simp]: "g_process (call c st) = g_process st"
  by (simp add: call_def)

lemma g_process_fold_call [simp]: "g_process (fold (\<lambda>x. call (f x)) xs st) = g_process st"
  by (induction xs arbitrary: st) simp_all

lemma g_process_DisableInAppDomain [simp]:
  "g_process (DisableAllBreakpointsAndSteppersInAppDomain ad st) = g_process st"
  by (simp add: DisableAllBreakpointsAndSteppersInAppDomain_def Let_def split: option.split)

lemma g_process_fold_Disable [simp]:
  "g_process (fold DisableAllBreakpointsAndSteppersInAppDomain ds st) = g_process st"
  by (induction ds arbitrary: st) simp_all

lemma g_process_Disable [simp]:
  "g_process (snd (DisableAllBreakpointsAndSteppers p st)) = g_process st"
  by (simp add: DisableAllBreakpointsAndSteppers_def split: prod.split)

lemma g_process_TerminateProcess_kill [simp]:
  "g_process (TerminateProcess_kill p st) = g_process st"
  by (simp add: TerminateProcess_kill_def Let_def)

lemma g_process_TerminateProcess_release [simp]:
  "g_process (TerminateProcess_release p d st) = g_process st"
  by (simp add: TerminateProcess_release_def Let_def)

lemma TerminateProcess_empty_registry:
  assumes "g_process st = None"
  shows "\<exists>hr st'. TerminateProcess ns st = Some (hr, ns, st') \<and> g_process st' = None"
  using assms
  by (simp add: TerminateProcess_def WaitProcessExited_empty_registry
      split: option.split prod.split)

text \<open>
  Claim C7. When no runtime image is found for the process (\<^verbatim>\<open>GetCoreCLRPath\<close> gives the
  empty path) and the registry is empty, \<^verbatim>\<open>AttachToProcess\<close> returns, its result is the
  ``runtime not found'' failure, whose code \<^verbatim>\<open>E_INVALIDARG\<close> is a failure code other than the
  \<^verbatim>\<open>E_FAIL\<close> of ``already attached'', and the registry is still empty.
\<close>

theorem AttachToProcess_runtime_not_found:
  assumes "GetCoreCLRPath os pid = []" and "g_process st = None"
  shows "(case AttachToProcess os pid ns st of
            None \<Rightarrow> False
          | Some (r, ns', st') \<Rightarrow>
              r = Inl RuntimeNotFound \<and> attach_status r = E_INVALIDARG \<and> ns' = ns \<and>
              g_process st' = None)
         \<and> FAILED E_INVALIDARG \<and> E_INVALIDARG \<noteq> E_FAIL"
proof -
  have rt: "AttachToProcess_runtime os pid s = (Inl RuntimeNotFound, s)" for s
    using assms(1) by (simp add: AttachToProcess_runtime_def)
  have codes: "FAILED E_INVALIDARG \<and> E_INVALIDARG \<noteq> E_FAIL"
    by (simp add: FAILED_def E_INVALIDARG_def E_FAIL_def)
  show ?thesis
  proof (cases "m_pProcess st \<noteq> None \<or> m_pDebug st \<noteq> None")
    case False
    with assms codes show ?thesis
      by (simp add: AttachToProcess_def rt)
  next
    case True
    from TerminateProcess_empty_registry [OF assms(2), of ns]
    obtain hr st' where "TerminateProcess ns st = Some (hr, ns, st')" "g_process st' = None"
      by blast
    with True assms codes show ?thesis
      by (simp add: AttachToProcess_def rt)
  qed
qed

theorem AttachToProcess_runtime_not_found_witness:
  "GetCoreCLRPath os_without_runtime 42 = [] \<and> g_process idle = None \<and>
   AttachToProcess os_without_runtime 42 [] idle = Some (Inl RuntimeNotFound, [], idle) \<and>
   attach_status (Inl RuntimeNotFound) = E_INVALIDARG"
proof -
  have h: "GetCoreCLRPath os_without_runtime 42 = []" "g_process idle = None"
    by (simp_all add: os_without_runtime_def idle_def)
  have "AttachToProcess os_without_runtime 42 [] idle = Some (Inl RuntimeNotFound, [], idle)"
    by (simp add: AttachToProcess_def AttachToProcess_runtime_def os_without_runtime_def idle_def)
  with h AttachToProcess_runtime_not_found [OF h, of "[]"] show ?thesis
    by simp
qed

section \<open>Properties of the exit wait and of forced termination\<close>

lemma g_process_out_printf [simp]: "g_process (out_printf text st) = g_process st"
  by (simp add: out_printf_def)

lemma g_process_Continue [simp]: "g_process (Continue c st) = g_process st"
  by (simp add: Continue_def)

lemma g_process_SetLastStoppedThread [simp]:
  "g_process (SetLastStoppedThread th st) = g_process st"
  by (simp add: SetLastStoppedThread_def)

lemma g_process_HandleEvent [simp]: "g_process (HandleEvent c name st) = g_process st"
  by (simp add: HandleEvent_def)




lemma extends_out_printf [simp]: "extends st (out_printf text st)"
  by (simp add: extends_def out_printf_def)

lemma extends_call [simp]: "extends st (call c st)"
  by (simp add: extends_def call_def)

lemma extends_Continue [simp]: "extends st (Continue c st)"
  by (simp add: Continue_def)

lemma extends_SetLastStoppedThread [simp]: "extends st (SetLastStoppedThread th st)"
  by (simp add: extends_def SetLastStoppedThread_def)























lemma stdout_call [simp]: "stdout (call c st) = stdout st"
  by (simp add: call_def)

lemma stdout_fold_call [simp]: "stdout (fold (\<lambda>x. call (f x)) xs st) = stdout st"
  by (induction xs arbitrary: st) simp_all

lemma stdout_DisableInAppDomain [simp]:
  "stdout (DisableAllBreakpointsAndSteppersInAppDomain ad st) = stdout st"
  by (simp add: DisableAllBreakpointsAndSteppersInAppDomain_def Let_def split: option.split)

lemma stdout_fold_Disable [simp]:
  "stdout (fold DisableAllBreakpointsAndSteppersInAppDomain ds st) = stdout st"
  by (induction ds arbitrary: st) simp_all

lemma stdout_Disable [simp]:
  "stdout (snd (DisableAllBreakpointsAndSteppers p st)) = stdout st"
  by (simp add: DisableAllBreakpointsAndSteppers_def split: prod.split)

lemma stdout_TerminateProcess_kill [simp]:
  "stdout (TerminateProcess_kill p st) = stdout st"
  by (simp add: TerminateProcess_kill_def Let_def)

lemma stdout_TerminateProcess_release [simp]:
  "stdout (TerminateProcess_release p d st) = stdout st"
  by (simp add: TerminateProcess_release_def Let_def)




section \<open>Properties of the safe memory reader\<close>

lemma SafeReadMemory_no_process:
  "g_process st = None \<Longrightarrow> SafeReadMemory pageSize offset cb lp st = (False, lp, st)"
  by (simp add: SafeReadMemory_def)

lemma read_lengths_append [simp]: "read_lengths (cs @ ds) = read_lengths cs @ read_lengths ds"
  by (induction cs rule: read_lengths.induct) simp_all

text \<open>When the first read succeeds it is the only one, and the count handed back is the one
  it stored.\<close>

lemma SafeReadMemory_first_read:
  assumes "g_process st = Some p"
    and "ReadMemory p (reads_so_far st) offset cb = (hr, Some n)" and "SUCCEEDED hr"
  shows "SafeReadMemory pageSize offset cb lp st =
           (True, ucast n, call (Call_ReadMemory (process_id p) offset cb) st)"
  using assms by (simp add: SafeReadMemory_def ReadMemory_call_def)

lemma unat_ucast_count: "unat (ucast (n :: SIZE_T) :: ULONG) \<le> unat n"
  by (simp add: unsigned_ucast_eq take_bit_nat_less_eq_self)

lemma SafeReadMemory_first_read_bounded:
  assumes "g_process st = Some p"
    and "ReadMemory p (reads_so_far st) offset cb = (hr, Some n)" and "SUCCEEDED hr"
    and "unat n \<le> unat cb"
  shows "unat (fst (snd (SafeReadMemory pageSize offset cb lp st))) \<le> unat cb"
  using SafeReadMemory_first_read [OF assms(1-3)] unat_ucast_count [of n] assms(4)
  by simp

text \<open>When the first read fails, the second one asks for the distance to the next page
  boundary cut to 32 bits, whatever length the caller asked for.\<close>

lemma SafeReadMemory_fallback_length:
  assumes "g_process st = Some p"
    and "\<not> SUCCEEDED (fst (ReadMemory p (reads_so_far st) offset cb))"
  shows "read_lengths (calls (snd (snd (SafeReadMemory pageSize offset cb lp st)))) =
           read_lengths (calls st) @ [cb, ucast (NextOSPageAddress pageSize offset - offset)]"
    and "unat (ucast (NextOSPageAddress pageSize offset - offset) :: ULONG) \<le>
           unat (NextOSPageAddress pageSize offset - offset)"
proof -
  obtain hr1 s1 where r1: "ReadMemory p (reads_so_far st) offset cb = (hr1, s1)"
    by (cases "ReadMemory p (reads_so_far st) offset cb")
  with assms(2) have f: "\<not> SUCCEEDED hr1"
    by simp
  let ?st1 = "call (Call_ReadMemory (process_id p) offset cb) st"
  let ?cb = "ucast (NextOSPageAddress pageSize offset - offset) :: ULONG"
  obtain hr2 s2 where r2: "ReadMemory p (reads_so_far ?st1) offset ?cb = (hr2, s2)"
    by (cases "ReadMemory p (reads_so_far ?st1) offset ?cb")
  from assms(1) r1 f r2
  show "read_lengths (calls (snd (snd (SafeReadMemory pageSize offset cb lp st)))) =
           read_lengths (calls st) @ [cb, ?cb]"
    by (simp add: SafeReadMemory_def ReadMemory_call_def)
  show "unat ?cb \<le> unat (NextOSPageAddress pageSize offset - offset)"
    by (rule unat_ucast_count)
qed

text \<open>The reads of the concrete process store at most the length they were asked for.\<close>

lemma process_mapping_honest:
  "ReadMemory process_mapping k a n = (hr, Some m) \<Longrightarrow> unat m \<le> unat n"
  by (auto simp: process_mapping_def process1_def unsigned_ucast_eq split: if_splits)

text \<open>
  Claim C2, at a concrete call. Four bytes are asked for at address \<open>0x1000\<close> with pages of
  4096 bytes. The first read fails; the second asks for the 4096 bytes up to the next
  page boundary and succeeds, and the count handed back is 4096, more than the 4 asked
  for.
\<close>

theorem SafeReadMemory_overrun:
  "SafeReadMemory 4096 0x1000 4 0 reading =
     (True, 4096, reading\<lparr>calls := [Call_ReadMemory 1 0x1000 4, Call_ReadMemory 1 0x1000 4096]\<rparr>) \<and>
   NextOSPageAddress 4096 0x1000 - 0x1000 = 4096 \<and>
   unat (4 :: ULONG) < unat (4096 :: ULONG)"
  by (simp add: SafeReadMemory_def ReadMemory_call_def reads_so_far_def NextOSPageAddress_def
      reading_def process_mapping_def process1_def idle_def call_def SUCCEEDED_def
      E_FAIL_def S_OK_def)

end
